theory Spec2Isabelle
  imports Main
begin

section \<open>The agent bridge: store, messaging and file locks\<close>

text \<open>
  A shallow embedding of \<^verbatim>\<open>bridge.py\<close>. The SQLite database behind \<^verbatim>\<open>get_db()\<close>
  is an explicit value of type \<open>db\<close>, passed to every operation and returned updated
  (each operation commits before it returns, so the returned value is the committed state).

  Modelling decisions, each of them visible in the definitions below:
  \<^item> A point in time is an integer number of microseconds, the resolution of
    \<^verbatim>\<open>datetime.utcnow()\<close>. The code stores times as ISO text and SQLite compares the
    texts; on the texts \<^verbatim>\<open>isoformat()\<close> produces (four-digit years) that order is the
    order of the instants, so the model compares the integers.
  \<^item> Every call of \<^verbatim>\<open>datetime.utcnow()\<close> in the source is a parameter of its own of
    the modelled function, in the order in which the source evaluates the calls. A
    function that reads the clock twice has two clock parameters.
  \<^item> \<^verbatim>\<open>datetime.fromtimestamp(datetime.utcnow().timestamp() + ttl_seconds)\<close> reads the
    naive UTC clock reading as a local time of the host, adds the seconds and converts
    back to local time. The host's time zone is a parameter of the model: its offset from
    UTC at each instant. The two conversions follow the algorithms of \<^verbatim>\<open>datetime\<close>; they
    cancel while the offset stays the same and do not when it changes in between. The
    second conversion raises when the result is not a date of the years 1 to 9999; this is
    a result of its own of \<^verbatim>\<open>lock_file\<close>. Rounding of the float that carries the
    seconds is not modelled.
  \<^item> Rows of a table are a list in rowid order. Integers of SQLite are unbounded here.
  \<^item> A failure of the store itself (locked database, disk error) is not modelled.
\<close>

subsection \<open>Tables\<close>

type_synonym timestamp = int

text \<open>Table \<^verbatim>\<open>messages\<close>; column \<^verbatim>\<open>id\<close> is \<open>msg_id\<close>.\<close>

record message =
  msg_id :: int
  sender :: string
  recipient :: string
  subject :: string
  body :: string
  thread_id :: "string option"
  created_at :: timestamp
  read_at :: "timestamp option"
  ack_at :: "timestamp option"

text \<open>Table \<^verbatim>\<open>agents\<close>; primary key \<^verbatim>\<open>name\<close>.\<close>

record agent_row =
  agent_name :: string
  program :: string
  agent_model :: string
  task :: string
  last_seen :: timestamp

text \<open>Table \<^verbatim>\<open>file_locks\<close>; columns \<^verbatim>\<open>path\<close> (primary key), \<^verbatim>\<open>agent\<close>, \<^verbatim>\<open>reason\<close>,
  \<^verbatim>\<open>expires_at\<close>.\<close>

record file_lock =
  lock_path :: string
  lock_agent :: string
  lock_reason :: string
  expires_at :: timestamp

text \<open>
  The database. \<open>messages_seq\<close> is the entry of table \<^verbatim>\<open>messages\<close> in
  \<^verbatim>\<open>sqlite_sequence\<close>, which \<^verbatim>\<open>AUTOINCREMENT\<close> maintains: the largest id ever given out.
\<close>

record db =
  messages :: "message list"
  messages_seq :: int
  agents :: "agent_row list"
  file_locks :: "file_lock list"

definition empty_db :: db where
  "empty_db = \<lparr>messages = [], messages_seq = 0, agents = [], file_locks = []\<rparr>"

text \<open>The dictionaries the operations return, one constructor per shape.\<close>

datatype result =
    Registered string
  | Sent int
  | MarkedRead int
  | Acknowledged int
  | Locked string timestamp
  | Conflict string string
  | Unlocked string

fun status :: "result \<Rightarrow> string" where
  "status (Registered n) = ''registered''"
| "status (Sent i) = ''sent''"
| "status (MarkedRead i) = ''read''"
| "status (Acknowledged i) = ''acknowledged''"
| "status (Locked p e) = ''locked''"
| "status (Conflict h p) = ''conflict''"
| "status (Unlocked p) = ''unlocked''"

text \<open>
  The exception that leaves \<^verbatim>\<open>lock_file\<close> when the expiry is not a representable date
  (one constructor for the exception classes that \<^verbatim>\<open>datetime.fromtimestamp\<close> raises).
\<close>

datatype error = DateOutOfRange

subsection \<open>Clock helpers\<close>

text \<open>The instant \<open>s\<close> seconds after \<open>t\<close>.\<close>

definition add_seconds :: "timestamp \<Rightarrow> int \<Rightarrow> timestamp" where
  "add_seconds t s = t + 1000000 * s"

text \<open>\<^verbatim>\<open>CURRENT_TIMESTAMP\<close> of SQLite has whole seconds only.\<close>

definition current_timestamp :: "timestamp \<Rightarrow> timestamp" where
  "current_timestamp t = t - t mod 1000000"

subsection \<open>Local time of the host\<close>

text \<open>
  The time zone of the host: \<open>utc_offset h u\<close> is the offset of local time from UTC, in
  seconds, at the instant \<open>u\<close> seconds after the epoch. \<open>local_seconds\<close> is \<^verbatim>\<open>local(u)\<close>
  of \<^verbatim>\<open>datetime\<close>: the local wall clock at that instant, as seconds since the naive epoch.
\<close>

record host =
  utc_offset :: "int \<Rightarrow> int"

definition local_seconds :: "host \<Rightarrow> int \<Rightarrow> int" where
  "local_seconds h u = u + utc_offset h u"

definition max_fold_seconds :: int where
  "max_fold_seconds = 24 * 3600"

text \<open>
  \<^verbatim>\<open>local_to_seconds\<close> (\<^verbatim>\<open>_mktime\<close>) of \<^verbatim>\<open>datetime\<close> with \<^verbatim>\<open>fold = 0\<close>, which is what a naive
  datetime from \<^verbatim>\<open>utcnow()\<close> has: the instant whose local wall clock shows \<open>t\<close>. It tries
  the offset \<open>a\<close> found at \<open>t\<close> itself, looks a day earlier for a second offset \<open>b\<close>, and
  when \<open>t\<close> is a wall-clock time that the host skips it returns the later candidate.
\<close>

definition local_to_seconds :: "host \<Rightarrow> int \<Rightarrow> int" where
  "local_to_seconds h t =
     (let a = local_seconds h t - t;
          u1 = t - a;
          t1 = local_seconds h u1;
          b = (if t1 = t
               then local_seconds h (u1 - max_fold_seconds) - (u1 - max_fold_seconds)
               else t1 - u1)
      in if t1 = t \<and> a = b then u1
         else (let u2 = t - b; t2 = local_seconds h u2
               in if t2 = t then u2 else if t1 = t then u1 else max u1 u2))"

text \<open>\<^verbatim>\<open>datetime.timestamp()\<close> of a naive datetime, in microseconds.\<close>

definition timestamp_of :: "host \<Rightarrow> timestamp \<Rightarrow> timestamp" where
  "timestamp_of h t = 1000000 * local_to_seconds h (t div 1000000) + t mod 1000000"

text \<open>
  The first and the last second that a \<^verbatim>\<open>datetime\<close> can hold, 0001-01-01T00:00:00 and
  9999-12-31T23:59:59, as seconds since the naive epoch.
\<close>

definition min_datetime_seconds :: int where
  "min_datetime_seconds = - 62135596800"

definition max_datetime_seconds :: int where
  "max_datetime_seconds = 253402300799"

text \<open>
  \<^verbatim>\<open>datetime.fromtimestamp(x)\<close>, \<open>x\<close> in microseconds: the local wall clock at that instant,
  or \<open>None\<close> where the call raises because the result is not a date of the years 1 to
  9999 (\<^verbatim>\<open>ValueError\<close>, or \<^verbatim>\<open>OverflowError\<close> or \<^verbatim>\<open>OSError\<close> from the platform; within a day
  of the two ends the platform decides, and the model draws the line at the ends).
\<close>

definition fromtimestamp :: "host \<Rightarrow> timestamp \<Rightarrow> timestamp option" where
  "fromtimestamp h x =
     (let l = local_seconds h (x div 1000000)
      in if min_datetime_seconds \<le> l \<and> l \<le> max_datetime_seconds
         then Some (1000000 * l + x mod 1000000) else None)"

text \<open>
  The first two statements of \<^verbatim>\<open>lock_file\<close>: the expiry that will be stored, computed from
  the clock reading \<open>now\<close>.
\<close>

definition lock_expiry :: "host \<Rightarrow> timestamp \<Rightarrow> int \<Rightarrow> timestamp option" where
  "lock_expiry h now ttl_seconds =
     fromtimestamp h (timestamp_of h now + 1000000 * ttl_seconds)"

subsection \<open>Agent registration\<close>

fun upsert_agent :: "agent_row \<Rightarrow> agent_row list \<Rightarrow> agent_row list" where
  "upsert_agent r [] = [r]"
| "upsert_agent r (x # xs) =
     (if agent_name x = agent_name r
      then x\<lparr>program := program r, agent_model := agent_model r, task := task r,
              last_seen := last_seen r\<rparr> # xs
      else x # upsert_agent r xs)"

definition register_agent ::
  "db \<Rightarrow> timestamp \<Rightarrow> string \<Rightarrow> string \<Rightarrow> string \<Rightarrow> string \<Rightarrow> result \<times> db" where
  "register_agent d now name prog mdl tsk =
     (Registered name,
      d\<lparr>agents := upsert_agent
           \<lparr>agent_name = name, program = prog, agent_model = mdl, task = tsk,
            last_seen = now\<rparr> (agents d)\<rparr>)"

subsection \<open>Messaging\<close>

fun max_rowid :: "message list \<Rightarrow> int" where
  "max_rowid [] = 0"
| "max_rowid (m # ms) = max (msg_id m) (max_rowid ms)"

text \<open>
  The rowid an \<^verbatim>\<open>AUTOINCREMENT\<close> insert takes: one more than the larger of the largest
  rowid in the table and the recorded sequence value.
\<close>

definition new_rowid :: "db \<Rightarrow> int" where
  "new_rowid d = max (max_rowid (messages d)) (messages_seq d) + 1"

text \<open>
  \<^verbatim>\<open>send_message\<close>. The insert names five columns; \<^verbatim>\<open>id\<close> and \<^verbatim>\<open>created_at\<close> take their
  defaults, \<^verbatim>\<open>read_at\<close> and \<^verbatim>\<open>ack_at\<close> are \<^verbatim>\<open>NULL\<close>. \<open>now\<close> is SQLite's clock at the insert.
\<close>

definition send_message ::
  "db \<Rightarrow> timestamp \<Rightarrow> string \<Rightarrow> string \<Rightarrow> string \<Rightarrow> string \<Rightarrow> string option \<Rightarrow> result \<times> db" where
  "send_message d now sndr rcpt subj bdy thread =
     (let i = new_rowid d;
          row = \<lparr>msg_id = i, sender = sndr, recipient = rcpt, subject = subj, body = bdy,
                 thread_id = thread, created_at = current_timestamp now,
                 read_at = None, ack_at = None\<rparr>
      in (Sent i, d\<lparr>messages := messages d @ [row], messages_seq := i\<rparr>))"





text \<open>What the \<^verbatim>\<open>UPDATE\<close> of \<^verbatim>\<open>mark_read\<close> does to one row.\<close>

definition mark_read_row :: "timestamp \<Rightarrow> int \<Rightarrow> string \<Rightarrow> message \<Rightarrow> message" where
  "mark_read_row now message_id agent m =
     (if msg_id m = message_id \<and> recipient m = agent then m\<lparr>read_at := Some now\<rparr> else m)"

definition mark_read :: "db \<Rightarrow> timestamp \<Rightarrow> int \<Rightarrow> string \<Rightarrow> result \<times> db" where
  "mark_read d now message_id agent =
     (MarkedRead message_id,
      d\<lparr>messages := map (mark_read_row now message_id agent) (messages d)\<rparr>)"

text \<open>
  What the \<^verbatim>\<open>UPDATE\<close> of \<^verbatim>\<open>ack_message\<close> does to one row. The parameter tuple of the
  source reads the clock twice: \<open>now1\<close> is bound to \<^verbatim>\<open>ack_at = ?\<close>, \<open>now2\<close> to
  \<^verbatim>\<open>COALESCE(read_at, ?)\<close>.
\<close>

definition ack_row :: "timestamp \<Rightarrow> timestamp \<Rightarrow> int \<Rightarrow> string \<Rightarrow> message \<Rightarrow> message" where
  "ack_row now1 now2 message_id agent m =
     (if msg_id m = message_id \<and> recipient m = agent
      then m\<lparr>ack_at := Some now1,
              read_at := (case read_at m of Some r \<Rightarrow> Some r | None \<Rightarrow> Some now2)\<rparr>
      else m)"

definition ack_message :: "db \<Rightarrow> timestamp \<Rightarrow> timestamp \<Rightarrow> int \<Rightarrow> string \<Rightarrow> result \<times> db" where
  "ack_message d now1 now2 message_id agent =
     (Acknowledged message_id,
      d\<lparr>messages := map (ack_row now1 now2 message_id agent) (messages d)\<rparr>)"

subsection \<open>File locks\<close>

text \<open>\<^verbatim>\<open>INSERT ... ON CONFLICT(path) DO UPDATE SET agent, reason, expires_at\<close>.\<close>

fun upsert_lock :: "file_lock \<Rightarrow> file_lock list \<Rightarrow> file_lock list" where
  "upsert_lock r [] = [r]"
| "upsert_lock r (x # xs) =
     (if lock_path x = lock_path r
      then x\<lparr>lock_agent := lock_agent r, lock_reason := lock_reason r,
              expires_at := expires_at r\<rparr> # xs
      else x # upsert_lock r xs)"

text \<open>
  \<^verbatim>\<open>lock_file\<close>. \<open>now1\<close> is the clock reading the expiry is computed from, \<open>now2\<close> the
  later one the query for an existing lock compares with. The expiry is computed first;
  when that raises, nothing has been read or written.
\<close>

definition lock_file ::
  "host \<Rightarrow> db \<Rightarrow> timestamp \<Rightarrow> timestamp \<Rightarrow> string \<Rightarrow> string \<Rightarrow> string \<Rightarrow> int
     \<Rightarrow> error + result \<times> db" where
  "lock_file h d now1 now2 path agent reason ttl_seconds =
     (case lock_expiry h now1 ttl_seconds of
        None \<Rightarrow> Inl DateOutOfRange
      | Some expires \<Rightarrow>
          (let existing = find (\<lambda>r. lock_path r = path \<and> expires_at r > now2) (file_locks d)
           in if (case existing of None \<Rightarrow> False | Some e \<Rightarrow> lock_agent e \<noteq> agent)
              then Inr (Conflict (lock_agent (the existing)) path, d)
              else Inr (Locked path expires,
                    d\<lparr>file_locks := upsert_lock
                         \<lparr>lock_path = path, lock_agent = agent, lock_reason = reason,
                          expires_at = expires\<rparr> (file_locks d)\<rparr>)))"

text \<open>The database after a call of \<^verbatim>\<open>lock_file\<close> on \<open>d\<close>: \<open>d\<close> itself when the call raised.\<close>

definition db_after :: "db \<Rightarrow> error + result \<times> db \<Rightarrow> db" where
  "db_after d r = (case r of Inl e \<Rightarrow> d | Inr (res, d') \<Rightarrow> d')"

definition unlock_file :: "db \<Rightarrow> string \<Rightarrow> string \<Rightarrow> result \<times> db" where
  "unlock_file d path agent =
     (Unlocked path,
      d\<lparr>file_locks :=
           filter (\<lambda>r. \<not> (lock_path r = path \<and> lock_agent r = agent)) (file_locks d)\<rparr>)"


subsection \<open>Constraints of the schema\<close>

text \<open>\<^verbatim>\<open>path TEXT PRIMARY KEY\<close>: no two rows of \<^verbatim>\<open>file_locks\<close> have the same path.\<close>

definition locks_key :: "db \<Rightarrow> bool" where
  "locks_key d = distinct (map lock_path (file_locks d))"

text \<open>The lock row of a path, live or expired.\<close>

definition lock_row :: "db \<Rightarrow> string \<Rightarrow> file_lock option" where
  "lock_row d path = find (\<lambda>r. lock_path r = path) (file_locks d)"

text \<open>\<^verbatim>\<open>id INTEGER PRIMARY KEY\<close>: no two rows of \<^verbatim>\<open>messages\<close> have the same id.\<close>

definition msgs_key :: "db \<Rightarrow> bool" where
  "msgs_key d = distinct (map msg_id (messages d))"

subsection \<open>Example states\<close>

text \<open>A host on UTC, and a host on the time of New York with its two changes of 2024:
  to daylight time at 2024-03-10T07:00:00Z and back at 2024-11-03T06:00:00Z.\<close>

definition utc_host :: host where
  "utc_host = \<lparr>utc_offset = (\<lambda>u. 0)\<rparr>"


text \<open>
  On the UTC host agent \<open>A\<close> locks \<open>f\<close> for ten seconds, the clock reading 0 and then 1
  microsecond.
\<close>

definition ex_locked :: db where
  "ex_locked = db_after empty_db (lock_file utc_host empty_db 0 1 ''f'' ''A'' ''edit'' 10)"



definition ex_row_A :: file_lock where
  "ex_row_A = \<lparr>lock_path = ''f'', lock_agent = ''A'', lock_reason = ''edit'',
               expires_at = 10000000\<rparr>"

text \<open>One message from \<open>A\<close> to \<open>agent-x\<close>, sent at 1.5 seconds.\<close>

definition ex_sent1 :: db where
  "ex_sent1 = snd (send_message empty_db 1500000 ''A'' ''agent-x'' ''hello'' ''body'' None)"

definition ex_msg1 :: message where
  "ex_msg1 = \<lparr>msg_id = 1, sender = ''A'', recipient = ''agent-x'', subject = ''hello'',
               body = ''body'', thread_id = None, created_at = 1000000,
               read_at = None, ack_at = None\<rparr>"



section \<open>Properties of the lock table\<close>

subsection \<open>The upsert and the primary key\<close>

lemma find_conj_first:
  "find P xs = Some a \<Longrightarrow> Q a \<Longrightarrow> find (\<lambda>r. P r \<and> Q r) xs = Some a"
  by (induction xs) (auto split: if_splits)






lemma key_row_unique:
  "distinct (map lock_path xs) \<Longrightarrow> find (\<lambda>r. lock_path r = p) xs = Some x \<Longrightarrow>
   r \<in> set xs \<Longrightarrow> lock_path r = p \<Longrightarrow> r = x"
  by (induction xs) (auto split: if_splits)

lemma lock_row_unique:
  "locks_key d \<Longrightarrow> lock_row d p = Some x \<Longrightarrow> r \<in> set (file_locks d) \<Longrightarrow>
   lock_path r = p \<Longrightarrow> r = x"
  unfolding locks_key_def lock_row_def by (rule key_row_unique)

subsection \<open>The expiry computation\<close>


text \<open>
  While the offset of the host never changes, the two conversions cancel: the expiry is
  the clock reading plus the lifetime, or the call raises.
\<close>

lemma div_of_parts: "0 \<le> r \<Longrightarrow> r < m \<Longrightarrow> (m * k + r) div m = k" for m k r :: int
  by simp

lemma mod_of_parts: "0 \<le> r \<Longrightarrow> r < m \<Longrightarrow> (m * k + r) mod m = r" for m k r :: int
  by simp

lemma local_to_seconds_fixed:
  "utc_offset h = (\<lambda>u. c) \<Longrightarrow> local_to_seconds h t = t - c"
  by (simp add: local_to_seconds_def local_seconds_def Let_def)

lemma fromtimestamp_parts:
  assumes "0 \<le> r" and "r < 1000000"
  shows "fromtimestamp h (1000000 * s + r) =
    (if min_datetime_seconds \<le> local_seconds h s \<and> local_seconds h s \<le> max_datetime_seconds
     then Some (1000000 * local_seconds h s + r) else None)"
  unfolding fromtimestamp_def Let_def div_of_parts [OF assms] mod_of_parts [OF assms] ..

lemma lock_expiry_fixed:
  assumes "utc_offset h = (\<lambda>u. c)"
  shows "lock_expiry h now ttl =
    (if min_datetime_seconds \<le> now div 1000000 + ttl
        \<and> now div 1000000 + ttl \<le> max_datetime_seconds
     then Some (add_seconds now ttl) else None)"
proof -
  let ?s = "now div 1000000 - c + ttl" and ?r = "now mod 1000000"
  have arg: "timestamp_of h now + 1000000 * ttl = 1000000 * ?s + ?r"
    by (simp add: timestamp_of_def local_to_seconds_fixed [OF assms] algebra_simps)
  have loc: "local_seconds h ?s = now div 1000000 + ttl"
    by (simp add: local_seconds_def assms)
  have whole: "1000000 * (now div 1000000 + ttl) + ?r = add_seconds now ttl"
    using mult_div_mod_eq [of 1000000 now] by (simp add: add_seconds_def algebra_simps)
  have "lock_expiry h now ttl = fromtimestamp h (1000000 * ?s + ?r)"
    by (simp only: lock_expiry_def arg)
  also have "\<dots> =
    (if min_datetime_seconds \<le> local_seconds h ?s \<and> local_seconds h ?s \<le> max_datetime_seconds
     then Some (1000000 * local_seconds h ?s + ?r) else None)"
    by (rule fromtimestamp_parts) simp_all
  also have "\<dots> =
    (if min_datetime_seconds \<le> now div 1000000 + ttl
        \<and> now div 1000000 + ttl \<le> max_datetime_seconds
     then Some (add_seconds now ttl) else None)"
    by (simp only: loc whole)
  finally show ?thesis .
qed


subsection \<open>The three outcomes of a request\<close>

lemma lock_file_raises:
  "lock_expiry h now1 ttl = None \<Longrightarrow> lock_file h d now1 now2 p a rs ttl = Inl DateOutOfRange"
  by (simp add: lock_file_def)








subsection \<open>Facts about the example states\<close>

lemma utc_offset_utc: "utc_offset utc_host = (\<lambda>u. 0)"
  by (simp add: utc_host_def)

lemma ex_expiry_ten: "lock_expiry utc_host 0 10 = Some 10000000"
  by (simp add: lock_expiry_fixed [OF utc_offset_utc] add_seconds_def
      min_datetime_seconds_def max_datetime_seconds_def)


lemma ex_locked_eq: "ex_locked = empty_db\<lparr>file_locks := [ex_row_A]\<rparr>"
  by (simp add: ex_locked_def db_after_def lock_file_def ex_expiry_ten empty_db_def
      ex_row_A_def Let_def)

lemma ex_locked_row: "lock_row ex_locked ''f'' = Some ex_row_A"
  by (simp add: ex_locked_eq lock_row_def ex_row_A_def)

lemma ex_locked_key: "locks_key ex_locked"
  by (simp add: ex_locked_eq locks_key_def)


lemma ex_locked_no_g: "lock_row ex_locked ''g'' = None"
  by (simp add: ex_locked_eq lock_row_def ex_row_A_def)

lemma ex_expiry_too_late: "lock_expiry utc_host now 1000000000000 = None" if "0 \<le> now"
proof -
  from that have "0 \<le> now div 1000000" by simp
  then show ?thesis
    by (simp add: lock_expiry_fixed [OF utc_offset_utc] max_datetime_seconds_def)
qed

subsection \<open>Lease exclusivity\<close>

text \<open>
  C1, as the claim states it: a request by another agent for a path with a live holder
  returns the conflict result. On the UTC host \<open>A\<close> holds \<open>f\<close> until second 10; at
  microsecond 5 agent \<open>B\<close> asks for \<open>f\<close> with a lifetime of \<open>10\<^sup>1\<^sup>2\<close> seconds. The expiry
  would lie after the year 9999, the computation of it raises, and the call ends there,
  before it has looked for a holder.
\<close>

theorem C1_unrepresentable_expiry_counterexample:
  "lock_row ex_locked ''f'' = Some ex_row_A \<and> 6 < expires_at ex_row_A
   \<and> ''B'' \<noteq> lock_agent ex_row_A
   \<and> lock_file utc_host ex_locked 5 6 ''f'' ''B'' ''mine'' 1000000000000 = Inl DateOutOfRange"
  by (simp add: ex_locked_row ex_row_A_def lock_file_raises ex_expiry_too_late)

text \<open>
  C1, amended. Whenever the row of path \<open>p\<close> belongs to an agent and has not expired at the
  instant \<open>now2\<close> at which \<^verbatim>\<open>lock_file\<close> looks for an existing lock, a request for \<open>p\<close>
  by any other agent \<open>B\<close> does one of two things. When its expiry can be computed, it
  returns the conflict result that names the holder, with the database it found. When
  the computation of the expiry raises, the call ends with that exception. In both cases
  the database afterwards is the one before: the holder's row keeps its agent, its reason
  and its expiry.
\<close>

theorem C1_lease_exclusivity:
  assumes "lock_row d p = Some a"
    and "now2 < expires_at a"
    and "B \<noteq> lock_agent a"
  shows "(lock_expiry h now1 ttl \<noteq> None \<longrightarrow>
            lock_file h d now1 now2 p B reason ttl = Inr (Conflict (lock_agent a) p, d))
    \<and> (lock_expiry h now1 ttl = None \<longrightarrow>
            lock_file h d now1 now2 p B reason ttl = Inl DateOutOfRange)
    \<and> db_after d (lock_file h d now1 now2 p B reason ttl) = d"
proof -
  from assms(1,2)
  have found: "find (\<lambda>r. lock_path r = p \<and> expires_at r > now2) (file_locks d) = Some a"
    unfolding lock_row_def by (rule find_conj_first)
  have conflict: "lock_file h d now1 now2 p B reason ttl = Inr (Conflict (lock_agent a) p, d)"
    if "lock_expiry h now1 ttl \<noteq> None"
    using that found assms(3) by (auto simp: lock_file_def Let_def)
  have raises: "lock_file h d now1 now2 p B reason ttl = Inl DateOutOfRange"
    if "lock_expiry h now1 ttl = None"
    using that by (rule lock_file_raises)
  have same: "db_after d (lock_file h d now1 now2 p B reason ttl) = d"
    using conflict raises by (cases "lock_expiry h now1 ttl") (simp_all add: db_after_def)
  from conflict raises same show ?thesis by blast
qed

theorem C1_lease_exclusivity_witness:
  "lock_row ex_locked ''f'' = Some ex_row_A \<and> 6 < expires_at ex_row_A
   \<and> ''B'' \<noteq> lock_agent ex_row_A
   \<and> lock_expiry utc_host 5 1800 = Some 1800000005
   \<and> lock_file utc_host ex_locked 5 6 ''f'' ''B'' ''mine'' 1800 = Inr (Conflict ''A'' ''f'', ex_locked)
   \<and> db_after ex_locked (lock_file utc_host ex_locked 5 6 ''f'' ''B'' ''mine'' 1800) = ex_locked"
proof -
  have live: "6 < expires_at ex_row_A" by (simp add: ex_row_A_def)
  have other: "''B'' \<noteq> lock_agent ex_row_A" by (simp add: ex_row_A_def)
  have holder: "lock_agent ex_row_A = ''A''" by (simp add: ex_row_A_def)
  have expiry: "lock_expiry utc_host 5 1800 = Some 1800000005"
    by (simp add: lock_expiry_fixed [OF utc_offset_utc] add_seconds_def
        min_datetime_seconds_def max_datetime_seconds_def)
  from C1_lease_exclusivity [OF ex_locked_row live other,
      where h = utc_host and ?now1.0 = 5 and reason = "''mine''" and ttl = 1800]
  show ?thesis using ex_locked_row live other expiry by (simp add: holder db_after_def)
qed

subsection \<open>Expiry reclamation\<close>




subsection \<open>Renewal\<close>







subsection \<open>Release\<close>

text \<open>
  C6. \<^verbatim>\<open>unlock_file\<close> always returns the result with status \<^verbatim>\<open>unlocked\<close> for the path
  it was given. It removes exactly the rows whose path and agent both equal its
  arguments. Hence, when the row of \<open>p\<close> belongs to an agent other than \<open>B\<close>, a release of
  \<open>p\<close> by \<open>B\<close> leaves the whole database as it was, the holder's row included; and so
  does a release of a path that has no row.
\<close>

theorem C6_release:
  "fst (unlock_file d p B) = Unlocked p
   \<and> status (fst (unlock_file d p B)) = ''unlocked''
   \<and> (\<forall>r. r \<in> set (file_locks (snd (unlock_file d p B))) \<longleftrightarrow>
            r \<in> set (file_locks d) \<and> \<not> (lock_path r = p \<and> lock_agent r = B))
   \<and> (locks_key d \<and> lock_row d p = Some a \<and> lock_agent a \<noteq> B \<longrightarrow>
        snd (unlock_file d p B) = d)
   \<and> (lock_row d p = None \<longrightarrow> snd (unlock_file d p B) = d)"
proof -
  have held: "snd (unlock_file d p B) = d"
    if "locks_key d" and "lock_row d p = Some a" and "lock_agent a \<noteq> B"
  proof -
    from that have "\<forall>r\<in>set (file_locks d). \<not> (lock_path r = p \<and> lock_agent r = B)"
      by (auto dest: lock_row_unique)
    then have "filter (\<lambda>r. \<not> (lock_path r = p \<and> lock_agent r = B)) (file_locks d) = file_locks d"
      by (simp add: filter_id_conv)
    then show ?thesis by (simp add: unlock_file_def)
  qed
  have free: "snd (unlock_file d p B) = d" if "lock_row d p = None"
  proof -
    from that have "\<forall>r\<in>set (file_locks d). \<not> (lock_path r = p \<and> lock_agent r = B)"
      by (auto simp: lock_row_def find_None_iff)
    then have "filter (\<lambda>r. \<not> (lock_path r = p \<and> lock_agent r = B)) (file_locks d) = file_locks d"
      by (simp add: filter_id_conv)
    then show ?thesis by (simp add: unlock_file_def)
  qed
  have rows: "\<forall>r. r \<in> set (file_locks (snd (unlock_file d p B))) \<longleftrightarrow>
            r \<in> set (file_locks d) \<and> \<not> (lock_path r = p \<and> lock_agent r = B)"
    by (simp add: unlock_file_def)
  have res: "fst (unlock_file d p B) = Unlocked p" by (simp add: unlock_file_def)
  from held free rows res show ?thesis by simp
qed

theorem C6_release_witness:
  "locks_key ex_locked \<and> lock_row ex_locked ''f'' = Some ex_row_A \<and> lock_agent ex_row_A \<noteq> ''B''
   \<and> unlock_file ex_locked ''f'' ''B'' = (Unlocked ''f'', ex_locked)
   \<and> lock_row ex_locked ''g'' = None
   \<and> unlock_file ex_locked ''g'' ''B'' = (Unlocked ''g'', ex_locked)"
proof -
  have other: "lock_agent ex_row_A \<noteq> ''B''" by (simp add: ex_row_A_def)
  have held: "unlock_file ex_locked ''f'' ''B'' = (Unlocked ''f'', ex_locked)"
    using C6_release [where d = ex_locked and p = "''f''" and B = "''B''" and a = ex_row_A]
      ex_locked_key ex_locked_row other
    by (simp add: prod_eq_iff)
  have free: "unlock_file ex_locked ''g'' ''B'' = (Unlocked ''g'', ex_locked)"
    using C6_release [where d = ex_locked and p = "''g''" and B = "''B''"] ex_locked_no_g
    by (simp add: prod_eq_iff)
  from held free ex_locked_key ex_locked_row other ex_locked_no_g show ?thesis by simp
qed

subsection \<open>Lifetimes that are not positive\<close>








section \<open>Properties of the message table\<close>

subsection \<open>Identifiers and the primary key\<close>

lemma max_rowid_ge: "m \<in> set ms \<Longrightarrow> msg_id m \<le> max_rowid ms"
  by (induction ms) auto

lemma new_rowid_fresh: "m \<in> set (messages d) \<Longrightarrow> msg_id m < new_rowid d"
  using max_rowid_ge [of m "messages d"] by (simp add: new_rowid_def)

lemma max_rowid_append: "max_rowid (ms @ [m]) = max (max_rowid ms) (msg_id m)"
  by (induction ms) auto

lemma msg_id_mark_read_row: "msg_id (mark_read_row now i a m) = msg_id m"
  by (simp add: mark_read_row_def)

lemma msg_id_ack_row: "msg_id (ack_row now1 now2 i a m) = msg_id m"
  by (simp add: ack_row_def)

lemma msgs_key_mark_read: "msgs_key d \<Longrightarrow> msgs_key (snd (mark_read d now i a))"
  by (simp add: msgs_key_def mark_read_def comp_def msg_id_mark_read_row)

lemma msgs_key_ack_message: "msgs_key d \<Longrightarrow> msgs_key (snd (ack_message d now1 now2 i a))"
  by (simp add: msgs_key_def ack_message_def comp_def msg_id_ack_row)

lemma msgs_key_unique:
  "msgs_key d \<Longrightarrow> m \<in> set (messages d) \<Longrightarrow> m' \<in> set (messages d) \<Longrightarrow>
   msg_id m' = msg_id m \<Longrightarrow> m' = m"
  by (auto simp: msgs_key_def distinct_map dest: inj_onD)

lemma ex_sent1_eq: "ex_sent1 = empty_db\<lparr>messages := [ex_msg1], messages_seq := 1\<rparr>"
  by (simp add: ex_sent1_def ex_msg1_def send_message_def empty_db_def new_rowid_def
      current_timestamp_def Let_def)

lemma ex_sent1_key: "msgs_key ex_sent1"
  by (simp add: ex_sent1_eq msgs_key_def)

lemma ex_msg1_sent: "ex_msg1 \<in> set (messages ex_sent1)"
  by (simp add: ex_sent1_eq)

subsection \<open>What the two updates do to one row\<close>

lemma ack_row_unread:
  assumes "msg_id m = i" and "recipient m = a" and "read_at m = None"
  shows "ack_at (ack_row now1 now2 i a m) = Some now1"
    and "read_at (ack_row now1 now2 i a m) = Some now2"
  using assms by (simp_all add: ack_row_def)

lemma ack_row_keeps_read_at:
  "read_at m = Some t \<Longrightarrow> read_at (ack_row now1 now2 i a m) = Some t"
  by (simp add: ack_row_def)

lemma mark_read_row_read_at:
  "read_at m = Some t \<Longrightarrow> t \<le> now \<Longrightarrow>
   \<exists>t'. read_at (mark_read_row now i a m) = Some t' \<and> t \<le> t'"
  by (simp add: mark_read_row_def)

lemma mark_read_row_after_ack:
  assumes "msg_id m = i" and "recipient m = a" and "ack_at m = Some t" and "t < now"
  shows "read_at (mark_read_row now i a m) = Some now"
    and "ack_at (mark_read_row now i a m) = Some t"
  using assms by (simp_all add: mark_read_row_def)

subsection \<open>Read and acknowledgement times\<close>

text \<open>
  C2. The claim: once \<^verbatim>\<open>ack_at\<close> is set, \<^verbatim>\<open>read_at\<close> is not later than \<^verbatim>\<open>ack_at\<close>, also
  after a later \<^verbatim>\<open>mark_read\<close>. The \<^verbatim>\<open>UPDATE\<close> of \<^verbatim>\<open>mark_read\<close> assigns \<^verbatim>\<open>read_at\<close>
  without looking at the row's state. Evaluated here: a message is sent, its recipient
  acknowledges it at second 5 (both clock readings equal) and marks it read at second 9;
  the row then has \<^verbatim>\<open>read_at\<close> at second 9 and \<^verbatim>\<open>ack_at\<close> at second 5.
\<close>

theorem C2_mark_read_after_ack:
  "map (\<lambda>m. (read_at m, ack_at m))
     (messages (snd (mark_read (snd (ack_message ex_sent1 5000000 5000000 1 ''agent-x''))
        9000000 1 ''agent-x'')))
   = [(Some 9000000, Some 5000000)]"
  by (simp add: ex_sent1_eq ex_msg1_def mark_read_def mark_read_row_def ack_message_def
      ack_row_def)

text \<open>
  C3. The claim: acknowledging an unread message leaves \<^verbatim>\<open>read_at\<close> equal to \<^verbatim>\<open>ack_at\<close>.
  \<^verbatim>\<open>ack_message\<close> reads the clock once for \<^verbatim>\<open>ack_at\<close> and once more for the value that
  \<^verbatim>\<open>COALESCE\<close> gives to an unset \<^verbatim>\<open>read_at\<close>. Evaluated here: a message is sent and its
  recipient acknowledges it, the two readings one microsecond apart; the row then has
  \<^verbatim>\<open>read_at\<close> one microsecond after \<^verbatim>\<open>ack_at\<close>.
\<close>

theorem C3_ack_backfill_second_reading:
  "map (\<lambda>m. (read_at m, ack_at m))
     (messages (snd (ack_message ex_sent1 5000000 5000001 1 ''agent-x'')))
   = [(Some 5000001, Some 5000000)]"
  by (simp add: ex_sent1_eq ex_msg1_def ack_message_def ack_row_def)

subsection \<open>Isolation between recipients\<close>

text \<open>
  C8. For a message \<open>m\<close> of the table and an agent \<open>B\<close> that is not its recipient,
  \<^verbatim>\<open>mark_read\<close> and \<^verbatim>\<open>ack_message\<close> called with the id of \<open>m\<close> and \<open>B\<close> return their
  usual results (status \<^verbatim>\<open>read\<close> and \<^verbatim>\<open>acknowledged\<close>) and leave the database as it was:
  every field of \<open>m\<close>, and of every other row, is unchanged.
\<close>

theorem C8_cross_recipient_isolation:
  assumes "msgs_key d"
    and "m \<in> set (messages d)"
    and "recipient m \<noteq> B"
  shows "mark_read d now (msg_id m) B = (MarkedRead (msg_id m), d)
    \<and> ack_message d t_ack t_read (msg_id m) B = (Acknowledged (msg_id m), d)
    \<and> status (fst (mark_read d now (msg_id m) B)) = ''read''
    \<and> status (fst (ack_message d t_ack t_read (msg_id m) B)) = ''acknowledged''"
proof -
  have other: "\<not> (msg_id m' = msg_id m \<and> recipient m' = B)" if "m' \<in> set (messages d)" for m'
    using assms that by (auto dest: msgs_key_unique)
  have "map (mark_read_row now (msg_id m) B) (messages d) = messages d"
    by (rule map_idI) (simp add: mark_read_row_def other)
  moreover have "map (ack_row t_ack t_read (msg_id m) B) (messages d) = messages d"
    by (rule map_idI) (simp add: ack_row_def other)
  ultimately show ?thesis by (simp add: mark_read_def ack_message_def)
qed

theorem C8_cross_recipient_isolation_witness:
  "msgs_key ex_sent1 \<and> ex_msg1 \<in> set (messages ex_sent1) \<and> recipient ex_msg1 \<noteq> ''B''
   \<and> mark_read ex_sent1 2000000 1 ''B'' = (MarkedRead 1, ex_sent1)
   \<and> ack_message ex_sent1 2000000 2000001 1 ''B'' = (Acknowledged 1, ex_sent1)"
proof -
  have other: "recipient ex_msg1 \<noteq> ''B''" by (simp add: ex_msg1_def)
  have ident: "msg_id ex_msg1 = 1" by (simp add: ex_msg1_def)
  from C8_cross_recipient_isolation [OF ex_sent1_key ex_msg1_sent other,
      where now = 2000000 and t_ack = 2000000 and t_read = 2000001]
  show ?thesis using ex_sent1_key ex_msg1_sent other by (simp add: ident)
qed

subsection \<open>Sending\<close>

text \<open>
  C9. \<^verbatim>\<open>send_message\<close> returns the id of the row it inserts. The table afterwards is the
  table before followed by exactly one row, which holds the arguments and has \<^verbatim>\<open>read_at\<close>
  and \<^verbatim>\<open>ack_at\<close> unset. The id is greater than every id in the table and than every id
  given out before, so ids stay distinct, and the next send gets a greater id still. The
  table of agents plays no part: with any other content of it the result is the same and
  the same row is inserted.
\<close>

theorem C9_send_postcondition:
  "fst (send_message d now s r subj b th) = Sent (new_rowid d)
   \<and> messages (snd (send_message d now s r subj b th)) =
       messages d @ [\<lparr>msg_id = new_rowid d, sender = s, recipient = r, subject = subj,
                      body = b, thread_id = th, created_at = current_timestamp now,
                      read_at = None, ack_at = None\<rparr>]
   \<and> (\<forall>m\<in>set (messages d). msg_id m < new_rowid d)
   \<and> messages_seq d < new_rowid d
   \<and> (msgs_key d \<longrightarrow> msgs_key (snd (send_message d now s r subj b th)))
   \<and> new_rowid d < new_rowid (snd (send_message d now s r subj b th))
   \<and> (\<forall>ags. send_message (d\<lparr>agents := ags\<rparr>) now s r subj b th =
         (fst (send_message d now s r subj b th),
          (snd (send_message d now s r subj b th))\<lparr>agents := ags\<rparr>))"
proof -
  have fresh: "\<forall>m\<in>set (messages d). msg_id m < new_rowid d"
    by (simp add: new_rowid_fresh)
  have seq: "messages_seq d < new_rowid d"
    by (simp add: new_rowid_def)
  have key: "msgs_key (snd (send_message d now s r subj b th))" if "msgs_key d"
  proof -
    from fresh have "new_rowid d \<notin> msg_id ` set (messages d)" by auto
    with that show ?thesis by (simp add: msgs_key_def send_message_def Let_def)
  qed
  have next_id: "new_rowid d < new_rowid (snd (send_message d now s r subj b th))"
    by (simp add: send_message_def Let_def new_rowid_def [of "_\<lparr>messages := _, messages_seq := _\<rparr>"])
  have agents: "\<forall>ags. send_message (d\<lparr>agents := ags\<rparr>) now s r subj b th =
         (fst (send_message d now s r subj b th),
          (snd (send_message d now s r subj b th))\<lparr>agents := ags\<rparr>)"
    by (simp add: send_message_def Let_def new_rowid_def)
  have res: "fst (send_message d now s r subj b th) = Sent (new_rowid d)"
    by (simp add: send_message_def Let_def)
  have app: "messages (snd (send_message d now s r subj b th)) =
       messages d @ [\<lparr>msg_id = new_rowid d, sender = s, recipient = r, subject = subj,
                      body = b, thread_id = th, created_at = current_timestamp now,
                      read_at = None, ack_at = None\<rparr>]"
    by (simp add: send_message_def Let_def)
  from res app fresh seq key next_id agents show ?thesis by blast
qed

theorem C9_send_postcondition_witness:
  "msgs_key ex_sent1
   \<and> map msg_id (messages ex_sent1) = [1]
   \<and> fst (send_message ex_sent1 2500000 ''B'' ''nobody'' ''hi'' [] None) = Sent 2
   \<and> map msg_id (messages (snd (send_message ex_sent1 2500000 ''B'' ''nobody'' ''hi'' [] None)))
       = [1, 2]
   \<and> msgs_key (snd (send_message ex_sent1 2500000 ''B'' ''nobody'' ''hi'' [] None))"
proof -
  have two: "new_rowid ex_sent1 = 2"
    by (simp add: ex_sent1_eq ex_msg1_def new_rowid_def empty_db_def)
  have one: "map msg_id (messages ex_sent1) = [1]"
    by (simp add: ex_sent1_eq ex_msg1_def)
  from C9_send_postcondition [where d = ex_sent1 and now = 2500000 and s = "''B''"
      and r = "''nobody''" and subj = "''hi''" and b = "[]" and th = None]
  show ?thesis using ex_sent1_key one by (simp add: two)
qed

subsection \<open>The inbox\<close>








end
